theory Spec2Isabelle
  imports Main
begin

section \<open>The complexity classifier of \<open>mcp-servers/ollama-mcp/index.js\<close>\<close>

text \<open>
  A JavaScript string is modelled as a \<^typ>\<open>string\<close>: each \<^typ>\<open>char\<close> stands for the code
  unit of the same number (0 to 255). The three regular expressions of
  \<open>estimateComplexity\<close> are alternations of ASCII words under the flag \<open>i\<close>, and the
  fourth is the class \<open>\s\<close>, so nothing else of the regular expression language is needed.
\<close>

subsection \<open>\<open>\s\<close> and \<open>String.prototype.split\<close>\<close>

text \<open>
  The members of the class \<open>\s\<close> among the code units below 256: tab, line feed, vertical
  tab, form feed, carriage return, space and the no-break space.
\<close>

definition is_space :: "char \<Rightarrow> bool" where
  "is_space c = (c \<in> set [CHR 0x09, CHR 0x0A, CHR 0x0B, CHR 0x0C, CHR 0x0D, CHR 0x20, CHR 0xA0])"

text \<open>
  \<open>prompt.split(/\s+/)\<close>: the text up to the first match of \<open>\s+\<close> is one piece, the match
  (a maximal run of white space, the quantifier being greedy) is dropped, and the search goes
  on behind it; what is left when no match remains is the last piece. A text that starts
  with white space has an empty first piece, one that ends with white space an empty last
  piece, and the empty text gives the single piece \<open>""\<close>.
\<close>

function split_ws :: "string \<Rightarrow> string list" where
  "split_ws s =
     (case dropWhile (\<lambda>c. \<not> is_space c) s of
        [] \<Rightarrow> [s]
      | _ # rest \<Rightarrow> takeWhile (\<lambda>c. \<not> is_space c) s # split_ws (dropWhile is_space rest))"
  by pat_completeness auto
termination
proof (relation "measure length")
  fix s :: string and x rest
  assume "dropWhile (\<lambda>c. \<not> is_space c) s = x # rest"
  then have "length s \<ge> length (x # rest)"
    by (metis length_dropWhile_le)
  moreover have "length (dropWhile is_space rest) \<le> length rest"
    by (rule length_dropWhile_le)
  ultimately show "(dropWhile is_space rest, s) \<in> measure length"
    by simp
qed simp

declare split_ws.simps [simp del]

subsection \<open>\<open>RegExp.prototype.test\<close> for an alternation of words, ignoring case\<close>

text \<open>
  Under the flag \<open>i\<close> a code unit of the pattern and one of the text match when their
  canonical forms (the upper case) are equal. The patterns hold ASCII letters only, and no
  code unit from 128 on is canonicalised to an ASCII one, so the canonical form is needed for
  ASCII letters only.
\<close>

definition canonicalize :: "char \<Rightarrow> char" where
  "canonicalize c =
     (case map_of (zip ''abcdefghijklmnopqrstuvwxyz'' ''ABCDEFGHIJKLMNOPQRSTUVWXYZ'') c of
        None \<Rightarrow> c
      | Some u \<Rightarrow> u)"

text \<open>A word matches at the head of \<open>s\<close>, code unit by code unit (both canonical).\<close>

fun matches_here :: "string \<Rightarrow> string \<Rightarrow> bool" where
  "matches_here [] s = True"
| "matches_here (w # ws) [] = False"
| "matches_here (w # ws) (c # cs) = (w = c \<and> matches_here ws cs)"

text \<open>Some alternative matches at some position of \<open>s\<close>.\<close>

fun search :: "string list \<Rightarrow> string \<Rightarrow> bool" where
  "search alts [] = list_ex (\<lambda>w. matches_here w []) alts"
| "search alts (c # cs) = (list_ex (\<lambda>w. matches_here w (c # cs)) alts \<or> search alts cs)"

text \<open>
  \<open>/w1|w2|.../i.test(s)\<close>. The expressions carry no flag \<open>g\<close> or \<open>y\<close>, so \<open>test\<close> keeps
  no state between calls.
\<close>

definition regex_test :: "string list \<Rightarrow> string \<Rightarrow> bool" where
  "regex_test alts s = search (map (map canonicalize) alts) (map canonicalize s)"

subsection \<open>\<open>estimateComplexity\<close>\<close>

datatype complexity = Simple | Medium | Complex

definition wordCount :: "string \<Rightarrow> nat" where
  "wordCount prompt = length (split_ws prompt)"

definition hasCodeRequest :: "string \<Rightarrow> bool" where
  "hasCodeRequest prompt =
     regex_test [''code'', ''implement'', ''function'', ''class'', ''debug'', ''fix''] prompt"

definition hasAnalysisRequest :: "string \<Rightarrow> bool" where
  "hasAnalysisRequest prompt =
     regex_test [''analyze'', ''explain'', ''compare'', ''evaluate''] prompt"

definition hasSimpleRequest :: "string \<Rightarrow> bool" where
  "hasSimpleRequest prompt =
     regex_test [''hello'', ''hi'', ''thanks'', ''yes'', ''no'', ''ok''] prompt"

definition estimateComplexity :: "string \<Rightarrow> complexity" where
  "estimateComplexity prompt =
     (if hasSimpleRequest prompt \<and> wordCount prompt < 20 then Simple
      else if hasCodeRequest prompt \<or> hasAnalysisRequest prompt \<or> 100 < wordCount prompt
        then Complex
      else Medium)"

subsection \<open>The number of words of a text\<close>

text \<open>
  The words of a text are its white-space-delimited tokens: the maximal runs of code units
  that are not white space. This is the count the name \<open>wordCount\<close> announces; it is
  defined here on its own, to be compared with what \<open>split\<close> returns.
\<close>

function words_of :: "string \<Rightarrow> string list" where
  "words_of s =
     (case dropWhile is_space s of
        [] \<Rightarrow> []
      | c # cs \<Rightarrow> takeWhile (\<lambda>c. \<not> is_space c) (c # cs)
                  # words_of (dropWhile (\<lambda>c. \<not> is_space c) cs))"
  by pat_completeness auto
termination
proof (relation "measure length")
  fix s :: string and c cs
  assume "dropWhile is_space s = c # cs"
  then have "length (c # cs) \<le> length s"
    by (metis length_dropWhile_le)
  moreover have "length (dropWhile (\<lambda>c. \<not> is_space c) cs) \<le> length cs"
    by (rule length_dropWhile_le)
  ultimately show "(dropWhile (\<lambda>c. \<not> is_space c) cs, s) \<in> measure length"
    by simp
qed simp

declare words_of.simps [simp del]


section \<open>The network and asynchronous code\<close>

text \<open>
  Everything thrown in this program is an \<open>Error\<close> object (from \<open>new Error\<close>, from a
  rejected \<open>fetch\<close>, from reading a body); the handler reads its \<open>message\<close> only.
\<close>

datatype js_error = Error (message: string)

text \<open>
  What the code reads of a parsed response body \<open>data\<close>: \<open>data.message?.content\<close>,
  \<open>data.response\<close> and \<open>data.models\<close>. A body that parses to \<open>null\<close> makes the property
  access itself throw. A model descriptor is kept as the text the backend sent for it.
\<close>

type_synonym model_descriptor = string

datatype json =
  JNull
| JObject (message_content: "string option") (response_text: "string option")
    (models: "model_descriptor list option")

record response =
  status :: nat
  text_of :: "js_error + string"
  json_of :: "js_error + json"

definition ok :: "response \<Rightarrow> bool" where
  "ok r = (200 \<le> status r \<and> status r \<le> 299)"

datatype chat_message = ChatMessage (role: string) (content: "string option")

datatype body =
  ChatBody string "chat_message list"
| GenerateBody string "string option" "nat option"

datatype request =
  Request (http_method: string) (url: string) (payload: "body option")
    (abort_after: "nat option")

text \<open>
  The network is a parameter of the model. For a request issued at time \<open>t\<close> (in
  milliseconds) it gives the delay after which \<open>fetch\<close> settles, and how: rejected with an
  error (connection refused, DNS failure) or resolved with a response.
\<close>

datatype fetch_outcome = Rejects js_error | Resolves response

type_synonym network = "nat \<Rightarrow> request \<Rightarrow> nat \<times> fetch_outcome"

text \<open>The state of the process: the clock, and every request issued so far with its time.\<close>

record sys =
  now :: nat
  issued :: "(nat \<times> request) list"

text \<open>
  An \<open>async\<close> function: it runs from a state, and either throws (\<open>Inl\<close>) or returns
  (\<open>Inr\<close>), leaving a new state.
\<close>

type_synonym 'a async = "sys \<Rightarrow> (js_error + 'a) \<times> sys"

definition return :: "'a \<Rightarrow> 'a async" where
  "return a s = (Inr a, s)"

definition throw :: "js_error \<Rightarrow> 'a async" where
  "throw e s = (Inl e, s)"

definition await :: "'a async \<Rightarrow> ('a \<Rightarrow> 'b async) \<Rightarrow> 'b async" where
  "await m f s = (case m s of (Inl e, s') \<Rightarrow> (Inl e, s') | (Inr a, s') \<Rightarrow> f a s')"

definition try_catch :: "'a async \<Rightarrow> (js_error \<Rightarrow> 'a async) \<Rightarrow> 'a async" where
  "try_catch m h s = (case m s of (Inl e, s') \<Rightarrow> h e s' | (Inr a, s') \<Rightarrow> (Inr a, s'))"

definition settled :: "(js_error + 'a) \<Rightarrow> 'a async" where
  "settled r s = (r, s)"

definition timeout_error :: js_error where
  "timeout_error = Error ''The operation was aborted due to timeout''"

text \<open>
  \<open>fetch(url, {method, body, signal: AbortSignal.timeout(ms)})\<close>: the request is issued
  now; with a signal, a fetch that has not settled when the signal fires is rejected at
  that moment. Reading the body of a response afterwards takes no time in this model.
\<close>

definition fetch :: "network \<Rightarrow> request \<Rightarrow> response async" where
  "fetch net req s =
     (let (delay, outcome) = net (now s) req;
          s' = s\<lparr>issued := issued s @ [(now s, req)]\<rparr>;
          settle = (case outcome of Rejects e \<Rightarrow> Inl e | Resolves r \<Rightarrow> Inr r)
      in case abort_after req of
           None \<Rightarrow> (settle, s'\<lparr>now := now s + delay\<rparr>)
         | Some ms \<Rightarrow>
             if delay < ms then (settle, s'\<lparr>now := now s + delay\<rparr>)
             else (Inl timeout_error, s'\<lparr>now := now s + ms\<rparr>))"

section \<open>\<open>class OllamaClient\<close>\<close>

record OllamaClient =
  baseUrl :: string

text \<open>The constructor: \<open>baseUrl.replace(/\/$/, '')\<close> removes one trailing slash.\<close>

definition strip_slash :: "string \<Rightarrow> string" where
  "strip_slash u = (if u \<noteq> [] \<and> last u = CHR ''/'' then butlast u else u)"

definition new_OllamaClient :: "string \<Rightarrow> OllamaClient" where
  "new_OllamaClient u = \<lparr>baseUrl = strip_slash u\<rparr>"

text \<open>A number in a template literal: its decimal digits.\<close>

fun show_nat :: "nat \<Rightarrow> string" where
  "show_nat n =
     (if n < 10 then [''0123456789'' ! n]
      else show_nat (n div 10) @ [''0123456789'' ! (n mod 10)])"

declare show_nat.simps [simp del]

text \<open>
  The \<open>TypeError\<close> of a property read on \<open>null\<close> or \<open>undefined\<close>, with the text the
  engine of Node.js gives it: \<open>Cannot read properties of null (reading 'models')\<close>.
\<close>

definition property_error :: "string \<Rightarrow> string \<Rightarrow> js_error" where
  "property_error of_what property =
     Error (''Cannot read properties of '' @ of_what @ '' (reading '' @ [CHR 0x27] @ property
            @ [CHR 0x27] @ '')'')"

definition chat :: "network \<Rightarrow> OllamaClient \<Rightarrow> string \<Rightarrow> chat_message list \<Rightarrow> string async" where
  "chat net this model messages =
     await (fetch net (Request ''POST'' (baseUrl this @ ''/api/chat'')
              (Some (ChatBody model messages)) None))
       (\<lambda>response.
          if \<not> ok response then
            await (settled (text_of response))
              (\<lambda>t. throw (Error (''Ollama error: '' @ show_nat (status response) @ '' '' @ t)))
          else
            await (settled (json_of response))
              (\<lambda>data. case data of
                   JNull \<Rightarrow> throw (property_error ''null'' ''message'')
                 | JObject c _ _ \<Rightarrow> return (case c of None \<Rightarrow> [] | Some t \<Rightarrow> t)))"

definition generate ::
  "network \<Rightarrow> OllamaClient \<Rightarrow> string \<Rightarrow> string option \<Rightarrow> nat option \<Rightarrow> string async" where
  "generate net this model prompt num_predict =
     await (fetch net (Request ''POST'' (baseUrl this @ ''/api/generate'')
              (Some (GenerateBody model prompt num_predict)) None))
       (\<lambda>response.
          if \<not> ok response then
            await (settled (text_of response))
              (\<lambda>t. throw (Error (''Ollama error: '' @ show_nat (status response) @ '' '' @ t)))
          else
            await (settled (json_of response))
              (\<lambda>data. case data of
                   JNull \<Rightarrow> throw (property_error ''null'' ''response'')
                 | JObject _ r _ \<Rightarrow> return (case r of None \<Rightarrow> [] | Some t \<Rightarrow> t)))"

definition tags_request :: "OllamaClient \<Rightarrow> nat option \<Rightarrow> request" where
  "tags_request this abort = Request ''GET'' (baseUrl this @ ''/api/tags'') None abort"

definition listModels :: "network \<Rightarrow> OllamaClient \<Rightarrow> model_descriptor list async" where
  "listModels net this =
     await (fetch net (tags_request this None))
       (\<lambda>response.
          if \<not> ok response then
            throw (Error (''Ollama error: '' @ show_nat (status response)))
          else
            await (settled (json_of response))
              (\<lambda>data. case data of
                   JNull \<Rightarrow> throw (property_error ''null'' ''models'')
                 | JObject _ _ ms \<Rightarrow> return (case ms of None \<Rightarrow> [] | Some l \<Rightarrow> l)))"

definition isAvailable :: "network \<Rightarrow> OllamaClient \<Rightarrow> bool async" where
  "isAvailable net this =
     try_catch
       (await (fetch net (tags_request this (Some 5000))) (\<lambda>response. return (ok response)))
       (\<lambda>_. return False)"


section \<open>Configuration and the two clients\<close>

record config =
  LOCAL_OLLAMA_HOST :: string
  REMOTE_OLLAMA_HOST :: string
  DEFAULT_LOCAL_MODEL :: string
  DEFAULT_REMOTE_MODEL :: string

text \<open>\<open>process.env.X || d\<close>: an unset or empty variable gives the default.\<close>

definition env_or :: "string option \<Rightarrow> string \<Rightarrow> string" where
  "env_or v d = (case v of None \<Rightarrow> d | Some x \<Rightarrow> if x = [] then d else x)"

definition config_from_env :: "(string \<Rightarrow> string option) \<Rightarrow> config" where
  "config_from_env env =
     \<lparr>LOCAL_OLLAMA_HOST = env_or (env ''OLLAMA_HOST'') ''http://localhost:8080'',
      REMOTE_OLLAMA_HOST = env_or (env ''REMOTE_OLLAMA_HOST'') ''http://192.168.86.56:11434'',
      DEFAULT_LOCAL_MODEL = env_or (env ''LOCAL_MODEL'') ''qwen2.5:1.5b'',
      DEFAULT_REMOTE_MODEL = env_or (env ''REMOTE_MODEL'') ''qwen2.5:7b''\<rparr>"

definition localClient :: "config \<Rightarrow> OllamaClient" where
  "localClient cfg = new_OllamaClient (LOCAL_OLLAMA_HOST cfg)"

definition remoteClient :: "config \<Rightarrow> OllamaClient" where
  "remoteClient cfg = new_OllamaClient (REMOTE_OLLAMA_HOST cfg)"

text \<open>
  The variable \<open>client\<close> of the handler refers to one of the two client objects; the
  reference is kept apart from the object, two distinct objects being equal as records when
  both hosts are configured alike.
\<close>

datatype client_ref = LocalClient | RemoteClient

fun deref :: "config \<Rightarrow> client_ref \<Rightarrow> OllamaClient" where
  "deref cfg LocalClient = localClient cfg"
| "deref cfg RemoteClient = remoteClient cfg"

section \<open>The handler of \<open>CallToolRequestSchema\<close>\<close>

text \<open>
  The arguments object of a tool call, with the properties the handler reads; \<open>None\<close> is
  an absent property (\<open>undefined\<close>). Strings are what the declared input schema gives them
  to be; the handler itself checks nothing.
\<close>

record tool_args =
  arg_message :: "string option"
  arg_system :: "string option"
  arg_model :: "string option"
  arg_prefer :: "string option"
  arg_prompt :: "string option"
  arg_max_tokens :: "nat option"

record call_request =
  tool_name :: string
  tool_arguments :: "tool_args option"

text \<open>The object of \<open>list_models\<close> and of \<open>health_check\<close>, as handed to \<open>JSON.stringify\<close>.\<close>

datatype slot_entry = Model model_descriptor | ErrorMarker string

record models_result =
  local_slot :: "slot_entry list"
  remote_slot :: "slot_entry list"

record health_entry =
  health_url :: string
  available :: bool

record health_result =
  local_health :: health_entry
  remote_health :: health_entry

text \<open>
  The text of a content item: a string, or the \<open>JSON.stringify\<close> of one of the two objects
  above (kept as the object, the rendering itself not being modelled).
\<close>

datatype text_value =
  Plain string
| ModelsJson models_result
| HealthJson health_result

datatype content_item = TextItem text_value

record routing_metadata =
  meta_model :: string
  meta_endpoint :: string

record tool_result =
  content_items :: "content_item list"
  metadata :: "routing_metadata option"
  isError :: bool

text \<open>The truth value of a string or \<open>undefined\<close>: only a non-empty string is truthy.\<close>

definition truthy :: "string option \<Rightarrow> string option" where
  "truthy v = (case v of None \<Rightarrow> None | Some x \<Rightarrow> if x = [] then None else Some x)"

text \<open>
  The \<open>TypeError\<close> of \<open>const { message, ... } = args\<close> when the request carries no
  arguments; the engine names the first property of the pattern.
\<close>

definition destructure_error :: "string \<Rightarrow> js_error" where
  "destructure_error property =
     Error (''Cannot destructure property '' @ [CHR 0x27] @ property @ [CHR 0x27] @ '' of ''
            @ [CHR 0x27] @ ''args'' @ [CHR 0x27] @ '' as it is undefined.'')"

text \<open>\<open>estimateComplexity(message)\<close> in the handler: \<open>undefined.split\<close> throws.\<close>

definition estimateComplexity_of :: "string option \<Rightarrow> js_error + complexity" where
  "estimateComplexity_of m =
     (case m of
        None \<Rightarrow> Inl (property_error ''undefined'' ''split'')
      | Some t \<Rightarrow> Inr (estimateComplexity t))"

text \<open>
  The block "Determine routing" of the case \<open>chat\<close>: it leaves \<open>client\<close> and \<open>modelToUse\<close>.
  In \<open>complexity === 'simple' && await localClient.isAvailable()\<close> the right operand runs
  only when the left one is true.
\<close>

definition determine_routing ::
  "network \<Rightarrow> config \<Rightarrow> tool_args \<Rightarrow> (client_ref \<times> string) async" where
  "determine_routing net cfg args =
     (let prefer = (case arg_prefer args of None \<Rightarrow> ''auto'' | Some p \<Rightarrow> p)
      in case truthy (arg_model args) of
           Some model \<Rightarrow>
             await (isAvailable net (localClient cfg))
               (\<lambda>localAvailable.
                  return (if localAvailable then LocalClient else RemoteClient, model))
         | None \<Rightarrow>
             if prefer = ''fast'' then return (LocalClient, DEFAULT_LOCAL_MODEL cfg)
             else if prefer = ''smart'' then return (RemoteClient, DEFAULT_REMOTE_MODEL cfg)
             else
               await (settled (estimateComplexity_of (arg_message args)))
                 (\<lambda>complexity.
                    await (if complexity = Simple then isAvailable net (localClient cfg)
                           else return False)
                      (\<lambda>simple_and_available.
                         if simple_and_available
                         then return (LocalClient, DEFAULT_LOCAL_MODEL cfg)
                         else return (RemoteClient,
                                if complexity = Complex then DEFAULT_REMOTE_MODEL cfg
                                else DEFAULT_LOCAL_MODEL cfg))))"

definition build_messages :: "tool_args \<Rightarrow> chat_message list" where
  "build_messages args =
     (case truthy (arg_system args) of
        None \<Rightarrow> []
      | Some system \<Rightarrow> [ChatMessage ''system'' (Some system)])
     @ [ChatMessage ''user'' (arg_message args)]"

definition chat_tool :: "network \<Rightarrow> config \<Rightarrow> tool_args option \<Rightarrow> tool_result async" where
  "chat_tool net cfg arguments =
     (case arguments of
        None \<Rightarrow> throw (destructure_error ''message'')
      | Some args \<Rightarrow>
          await (determine_routing net cfg args)
            (\<lambda>(client, modelToUse).
               await (chat net (deref cfg client) modelToUse (build_messages args))
                 (\<lambda>response.
                    return \<lparr>content_items = [TextItem (Plain response)],
                            metadata = Some \<lparr>meta_model = modelToUse,
                                             meta_endpoint = baseUrl (deref cfg client)\<rparr>,
                            isError = False\<rparr>)))"

definition generate_tool :: "network \<Rightarrow> config \<Rightarrow> tool_args option \<Rightarrow> tool_result async" where
  "generate_tool net cfg arguments =
     (case arguments of
        None \<Rightarrow> throw (destructure_error ''prompt'')
      | Some args \<Rightarrow>
          (let modelToUse = (case truthy (arg_model args) of
                               None \<Rightarrow> DEFAULT_REMOTE_MODEL cfg | Some m \<Rightarrow> m)
           in await (generate net (remoteClient cfg) modelToUse (arg_prompt args)
                       (arg_max_tokens args))
                (\<lambda>response.
                   return \<lparr>content_items = [TextItem (Plain response)],
                           metadata = None, isError = False\<rparr>)))"

text \<open>One slot of \<open>list_models\<close>: \<open>try { r = await c.listModels() } catch (e) { r = [{error: e.message}] }\<close>.\<close>

definition list_slot :: "network \<Rightarrow> OllamaClient \<Rightarrow> slot_entry list async" where
  "list_slot net c =
     try_catch (await (listModels net c) (\<lambda>ms. return (map Model ms)))
       (\<lambda>e. return [ErrorMarker (message e)])"

definition list_models_tool :: "network \<Rightarrow> config \<Rightarrow> tool_result async" where
  "list_models_tool net cfg =
     await (list_slot net (localClient cfg))
       (\<lambda>l. await (list_slot net (remoteClient cfg))
          (\<lambda>r. return \<lparr>content_items =
                           [TextItem (ModelsJson \<lparr>local_slot = l, remote_slot = r\<rparr>)],
                         metadata = None, isError = False\<rparr>))"

definition health_check_tool :: "network \<Rightarrow> config \<Rightarrow> tool_result async" where
  "health_check_tool net cfg =
     await (isAvailable net (localClient cfg))
       (\<lambda>l. await (isAvailable net (remoteClient cfg))
          (\<lambda>r. return \<lparr>content_items =
                           [TextItem (HealthJson
                              \<lparr>local_health =
                                 \<lparr>health_url = LOCAL_OLLAMA_HOST cfg, available = l\<rparr>,
                               remote_health =
                                 \<lparr>health_url = REMOTE_OLLAMA_HOST cfg, available = r\<rparr>\<rparr>)],
                         metadata = None, isError = False\<rparr>))"

text \<open>The value the \<open>catch\<close> of the handler returns.\<close>

definition error_result :: "js_error \<Rightarrow> tool_result" where
  "error_result error =
     \<lparr>content_items = [TextItem (Plain (''Error: '' @ message error))],
      metadata = None, isError = True\<rparr>"

definition switch_tool :: "network \<Rightarrow> config \<Rightarrow> call_request \<Rightarrow> tool_result async" where
  "switch_tool net cfg req =
     (if tool_name req = ''chat'' then chat_tool net cfg (tool_arguments req)
      else if tool_name req = ''generate'' then generate_tool net cfg (tool_arguments req)
      else if tool_name req = ''list_models'' then list_models_tool net cfg
      else if tool_name req = ''health_check'' then health_check_tool net cfg
      else throw (Error (''Unknown tool: '' @ tool_name req)))"

definition call_tool :: "network \<Rightarrow> config \<Rightarrow> call_request \<Rightarrow> tool_result async" where
  "call_tool net cfg req =
     try_catch (switch_tool net cfg req) (\<lambda>error. return (error_result error))"


section \<open>Notions used to state the properties\<close>

text \<open>The liveness probe: the one request \<open>isAvailable\<close> sends.\<close>

definition probe :: "OllamaClient \<Rightarrow> request" where
  "probe this = tags_request this (Some 5000)"

text \<open>The availability check of the local backend returns \<open>true\<close> when called in state \<open>s\<close>.\<close>

definition local_available :: "network \<Rightarrow> config \<Rightarrow> sys \<Rightarrow> bool" where
  "local_available net cfg s = (fst (isAvailable net (localClient cfg) s) = Inr True)"

text \<open>The request of a tool by name.\<close>

definition chat_request :: "tool_args option \<Rightarrow> call_request" where
  "chat_request a = \<lparr>tool_name = ''chat'', tool_arguments = a\<rparr>"

text \<open>The request that \<open>client.chat(modelToUse, messages)\<close> sends for the arguments \<open>args\<close>.\<close>

definition chat_post :: "config \<Rightarrow> client_ref \<Rightarrow> string \<Rightarrow> tool_args \<Rightarrow> request" where
  "chat_post cfg client model args =
     Request ''POST'' (baseUrl (deref cfg client) @ ''/api/chat'')
       (Some (ChatBody model (build_messages args))) None"

definition list_models_request :: "tool_args option \<Rightarrow> call_request" where
  "list_models_request a = \<lparr>tool_name = ''list_models'', tool_arguments = a\<rparr>"

subsection \<open>Concrete configurations, networks and inputs\<close>

definition default_config :: config where
  "default_config = config_from_env (\<lambda>_. None)"

definition start :: sys where
  "start = \<lparr>now = 0, issued = []\<rparr>"

definition good_response :: response where
  "good_response =
     \<lparr>status = 200, text_of = Inr ''{}'',
      json_of = Inr (JObject (Some ''Hello!'') (Some ''Hello!'') (Some [''qwen2.5:7b'']))\<rparr>"

definition refused :: js_error where
  "refused = Error ''fetch failed''"

text \<open>Every backend answers after 1 ms; no backend can be reached.\<close>

definition net_up :: network where
  "net_up t req = (1, Resolves good_response)"

definition net_down :: network where
  "net_down t req = (1, Rejects refused)"

text \<open>A backend that answers the request issued at time 0 and is gone afterwards.\<close>

definition net_gone_after_first :: network where
  "net_gone_after_first t req =
     (if t = 0 then (1, Resolves good_response) else (1, Rejects refused))"

text \<open>Only the remote host of the default configuration answers; only the local one does.\<close>

definition net_local_down :: network where
  "net_local_down t req =
     (if take 26 (url req) = ''http://192.168.86.56:11434'' then (1, Resolves good_response)
      else (1, Rejects refused))"

definition net_remote_down :: network where
  "net_remote_down t req =
     (if take 21 (url req) = ''http://localhost:8080'' then (1, Resolves good_response)
      else (1, Rejects refused))"

definition no_args :: tool_args where
  "no_args = \<lparr>arg_message = None, arg_system = None, arg_model = None, arg_prefer = None,
              arg_prompt = None, arg_max_tokens = None\<rparr>"

definition hi_args :: tool_args where
  "hi_args = no_args\<lparr>arg_message := Some ''hi''\<rparr>"

definition fast_args :: tool_args where
  "fast_args = hi_args\<lparr>arg_prefer := Some ''fast''\<rparr>"

definition turbo_args :: tool_args where
  "turbo_args = hi_args\<lparr>arg_prefer := Some ''turbo''\<rparr>"

definition turbo_fix_args :: tool_args where
  "turbo_fix_args = no_args\<lparr>arg_message := Some ''fix the parser'', arg_prefer := Some ''turbo''\<rparr>"

text \<open>Every backend answers after 1 ms with the status 500 and a text.\<close>

definition failing_response :: response where
  "failing_response =
     \<lparr>status = 500, text_of = Inr ''model not found'',
      json_of = Inl (Error ''Unexpected token'')\<rparr>"

definition net_500 :: network where
  "net_500 t req = (1, Resolves failing_response)"

text \<open>Nineteen words, a greeting among them, and the line feed that ends the line.\<close>

definition nineteen_words :: string where
  "nineteen_words =
     ''thanks, see you at ten and we can go to the lake by car if it is dry out'' @ [CHR 0x0A]"


section \<open>The classifier\<close>

lemmas regex_defs = hasSimpleRequest_def hasCodeRequest_def hasAnalysisRequest_def
  regex_test_def canonicalize_def

text \<open>The order of the checks: the simple check, then the complex check, else medium.\<close>

lemma estimateComplexity_simple:
  "hasSimpleRequest t \<Longrightarrow> wordCount t < 20 \<Longrightarrow> estimateComplexity t = Simple"
  by (simp add: estimateComplexity_def)

lemma estimateComplexity_complex:
  "\<not> (hasSimpleRequest t \<and> wordCount t < 20) \<Longrightarrow>
   hasCodeRequest t \<or> hasAnalysisRequest t \<or> 100 < wordCount t \<Longrightarrow>
   estimateComplexity t = Complex"
  by (auto simp add: estimateComplexity_def)

lemma estimateComplexity_medium:
  "\<not> (hasSimpleRequest t \<and> wordCount t < 20) \<Longrightarrow>
   \<not> (hasCodeRequest t \<or> hasAnalysisRequest t \<or> 100 < wordCount t) \<Longrightarrow>
   estimateComplexity t = Medium"
  by (auto simp add: estimateComplexity_def)

subsection \<open>What \<open>wordCount\<close> counts\<close>

lemma words_of_Nil: "words_of [] = []"
  by (simp add: words_of.simps)

lemma words_of_spaces:
  assumes "\<forall>c\<in>set ws. is_space c"
  shows "words_of (ws @ t) = words_of t"
proof -
  have "dropWhile is_space (ws @ t) = dropWhile is_space t"
    using assms by (simp add: dropWhile_append2)
  then show ?thesis
    by (subst words_of.simps, subst (2) words_of.simps) simp
qed

lemma words_of_word:
  assumes "w \<noteq> []" and "\<forall>c\<in>set w. \<not> is_space c" and "t = [] \<or> is_space (hd t)"
  shows "words_of (w @ t) = w # words_of t"
proof -
  obtain c cs where w: "w = c # cs"
    using assms(1) by (cases w) auto
  then have c: "\<not> is_space c" and cs: "\<forall>c\<in>set cs. \<not> is_space c"
    using assms(2) by auto
  have tw: "takeWhile (\<lambda>c. \<not> is_space c) (cs @ t) = cs"
    using cs assms(3) by (cases t) (auto simp: takeWhile_append2 takeWhile_tail)
  have dw: "dropWhile (\<lambda>c. \<not> is_space c) (cs @ t) = t"
    using cs assms(3) by (cases t) (auto simp: dropWhile_append2)
  show ?thesis
    using c tw dw by (subst words_of.simps) (simp add: w)
qed

text \<open>
  \<open>split\<close> returns the words, and one empty piece more when the text starts with white
  space, and one more when it ends with white space; the empty text has no word and one
  piece.
\<close>

lemma wordCount_words_of:
  "wordCount s =
     (if s = [] then 1
      else length (words_of s) + (if is_space (hd s) then 1 else 0)
             + (if is_space (last s) then 1 else 0))"
  unfolding wordCount_def
proof (induction s rule: split_ws.induct)
  case (1 s)
  let ?nsp = "\<lambda>c. \<not> is_space c"
  show ?case
  proof (cases "dropWhile ?nsp s")
    case Nil
    then have all: "\<forall>c\<in>set s. \<not> is_space c"
      by simp
    have sp: "split_ws s = [s]"
      by (subst split_ws.simps) (simp add: Nil)
    show ?thesis
    proof (cases "s = []")
      case True
      then show ?thesis using sp by simp
    next
      case False
      then have "words_of (s @ []) = s # words_of []"
        using all by (intro words_of_word) auto
      then show ?thesis
        using sp False all by (simp add: words_of_Nil)
    qed
  next
    case (Cons x rest)
    define pre where "pre = takeWhile ?nsp s"
    define s' where "s' = dropWhile is_space rest"
    define run where "run = x # takeWhile is_space rest"
    have s: "s = pre @ x # rest"
      using Cons takeWhile_dropWhile_id [of ?nsp s] by (simp add: pre_def)
    have x: "is_space x"
      using Cons by (metis (mono_tags, lifting) hd_dropWhile list.distinct(1) list.sel(1))
    have pre: "\<forall>c\<in>set pre. \<not> is_space c"
      unfolding pre_def by (metis (mono_tags, lifting) set_takeWhileD)
    have run: "\<forall>c\<in>set run. is_space c"
      unfolding run_def using x by (auto dest: set_takeWhileD)
    have run_ne: "run \<noteq> []"
      by (simp add: run_def)
    have s2: "s = pre @ run @ s'"
      by (simp add: s run_def s'_def)
    have hd_s': "s' \<noteq> [] \<Longrightarrow> \<not> is_space (hd s')"
      unfolding s'_def by (metis hd_dropWhile)
    have sp: "split_ws s = pre # split_ws s'"
      by (subst split_ws.simps) (simp add: Cons pre_def s'_def)
    have IH: "length (split_ws s') =
       (if s' = [] then 1
        else length (words_of s') + (if is_space (hd s') then 1 else 0)
               + (if is_space (last s') then 1 else 0))"
      using "1.IH" [OF Cons] by (simp add: s'_def)
    have w_run: "words_of (run @ s') = words_of s'"
      using run by (rule words_of_spaces)
    have hd_run: "is_space (hd (run @ s'))"
      using run run_ne by (cases run) auto
    have w: "words_of s = (if pre = [] then words_of s' else pre # words_of s')"
    proof (cases "pre = []")
      case True
      then show ?thesis using w_run s2 by simp
    next
      case False
      then have "words_of (pre @ (run @ s')) = pre # words_of (run @ s')"
        using pre hd_run by (intro words_of_word) auto
      then show ?thesis using False w_run s2 by simp
    qed
    have hd_s: "is_space (hd s) \<longleftrightarrow> pre = []"
    proof (cases pre)
      case Nil
      then show ?thesis using s x by simp
    next
      case (Cons a list)
      then show ?thesis using s pre by auto
    qed
    have last_s: "is_space (last s) \<longleftrightarrow> (s' = [] \<or> is_space (last s'))"
    proof (cases "s' = []")
      case True
      then have "last s = last run" using s2 run_ne by simp
      then show ?thesis using True run run_ne last_in_set by metis
    next
      case False
      then show ?thesis using s2 by simp
    qed
    show ?thesis
    proof (cases "s' = []")
      case True
      then show ?thesis
        using sp IH w hd_s last_s s by (auto simp: words_of_Nil split_ws.simps)
    next
      case False
      then show ?thesis
        using sp IH w hd_s last_s s hd_s' by auto
    qed
  qed
qed

text \<open>So \<open>wordCount\<close> is the number of words exactly on a text that neither starts nor ends
  with white space, and never less.\<close>

lemma wordCount_trimmed:
  "s \<noteq> [] \<Longrightarrow> \<not> is_space (hd s) \<Longrightarrow> \<not> is_space (last s) \<Longrightarrow>
   wordCount s = length (words_of s)"
  by (simp add: wordCount_words_of)

lemma words_le_wordCount: "length (words_of s) \<le> wordCount s"
  by (simp add: wordCount_words_of words_of_Nil)

text \<open>
  With the number of words in the place of \<open>wordCount\<close>: a text of more than 100 words
  without a greeting is always complex, and on a text without white space at either end the
  three cases are as the variable names announce.
\<close>

lemma many_words_complex:
  "100 < length (words_of t) \<Longrightarrow> \<not> hasSimpleRequest t \<Longrightarrow> estimateComplexity t = Complex"
  using words_le_wordCount [of t] by (simp add: estimateComplexity_def)

lemma estimateComplexity_trimmed:
  assumes "t \<noteq> []" and "\<not> is_space (hd t)" and "\<not> is_space (last t)"
  shows "estimateComplexity t =
     (if hasSimpleRequest t \<and> length (words_of t) < 20 then Simple
      else if hasCodeRequest t \<or> hasAnalysisRequest t \<or> 100 < length (words_of t)
        then Complex
      else Medium)"
  using wordCount_trimmed [OF assms] by (simp add: estimateComplexity_def)

text \<open>
  Claim C4 (the first case of the classifier): a text that matches the greeting pattern and
  has fewer than 20 words is \<open>simple\<close>. The text below matches \<open>thanks\<close>, has 19 words and
  ends with a line feed; \<open>split\<close> returns 20 pieces, the last one empty, the simple check
  fails on \<open>20 < 20\<close>, and the result is \<open>medium\<close>.
\<close>

theorem trailing_line_feed_counts_as_word:
  "hasSimpleRequest nineteen_words \<and> length (words_of nineteen_words) = 19 \<and>
   wordCount nineteen_words = 20 \<and> \<not> hasCodeRequest nineteen_words \<and>
   \<not> hasAnalysisRequest nineteen_words \<and> estimateComplexity nineteen_words = Medium"
  by (simp add: nineteen_words_def estimateComplexity_def wordCount_def split_ws.simps
      words_of.simps is_space_def regex_defs)

text \<open>
  Claim C9: the patterns match anywhere in the text, so a text that matches the code pattern
  can be \<open>simple\<close>. \<open>fix this bug\<close> matches \<open>fix\<close>; it also matches the greeting \<open>hi\<close> at
  offset 5, inside \<open>this\<close>; it has 3 words, and the simple check comes first.
\<close>

theorem fix_this_bug_is_simple:
  "hasCodeRequest ''fix this bug'' \<and>
   matches_here ''HI'' (map canonicalize (drop 5 ''fix this bug'')) \<and>
   wordCount ''fix this bug'' = 3 \<and> estimateComplexity ''fix this bug'' = Simple"
  by (simp add: estimateComplexity_def wordCount_def split_ws.simps is_space_def regex_defs)


section \<open>The availability check\<close>

lemmas async_simps = return_def throw_def await_def try_catch_def settled_def

lemmas example_defs = default_config_def config_from_env_def env_or_def localClient_def
  remoteClient_def new_OllamaClient_def strip_slash_def start_def good_response_def
  refused_def ok_def tags_request_def probe_def

text \<open>
  One run of \<open>isAvailable\<close>: the probe is issued, its outcome is turned into a boolean, and
  the clock moves by the delay of the answer, or by the 5 seconds of the signal.
\<close>

lemma isAvailable_run:
  "isAvailable net this s =
     (Inr (case snd (net (now s) (probe this)) of
             Rejects e \<Rightarrow> False
           | Resolves r \<Rightarrow> fst (net (now s) (probe this)) < 5000 \<and> ok r),
      s\<lparr>issued := issued s @ [(now s, probe this)],
        now := now s + min (fst (net (now s) (probe this))) 5000\<rparr>)"
proof (cases "net (now s) (probe this)")
  case (Pair delay outcome)
  then show ?thesis
    by (cases outcome)
      (simp_all add: isAvailable_def probe_def fetch_def tags_request_def async_simps
        Let_def min_def)
qed

lemma isAvailable_issued:
  "issued (snd (isAvailable net this s)) = issued s @ [(now s, probe this)]"
  by (simp add: isAvailable_run)

text \<open>
  Claim C7: the liveness probe never throws. For every network, client and state
  \<open>isAvailable\<close> returns a boolean: \<open>false\<close> when the request is rejected (any network
  error), \<open>false\<close> when no answer has come within 5000 ms, and otherwise whether the status
  of the answer is a success.
\<close>

theorem isAvailable_never_throws:
  "fst (isAvailable net this s) =
     Inr (case net (now s) (probe this) of
            (delay, Rejects e) \<Rightarrow> False
          | (delay, Resolves r) \<Rightarrow> delay < 5000 \<and> ok r)"
  by (simp add: isAvailable_run split: prod.splits fetch_outcome.splits)

text \<open>
  Claim C1 as stated: two calls of \<open>isAvailable\<close> within 10 seconds issue at most one probe,
  and the second call returns the boolean of the first. It is false of this code: against a
  backend that answers at time 0 and is gone at time 1, the second call starts 1 ms after
  the first, a second probe is issued, and the calls return \<open>true\<close> and then \<open>false\<close>.
\<close>

theorem isAvailable_twice_counterexample:
  "now (snd (isAvailable net_gone_after_first (localClient default_config) start)) - now start
     < 10000 \<and>
   map snd (issued (snd (isAvailable net_gone_after_first (localClient default_config)
       (snd (isAvailable net_gone_after_first (localClient default_config) start))))) =
     [probe (localClient default_config), probe (localClient default_config)] \<and>
   fst (isAvailable net_gone_after_first (localClient default_config) start) = Inr True \<and>
   fst (isAvailable net_gone_after_first (localClient default_config)
       (snd (isAvailable net_gone_after_first (localClient default_config) start))) = Inr False"
  by (simp add: isAvailable_run net_gone_after_first_def start_def good_response_def ok_def)

text \<open>
  Claim C1 as amended: \<open>isAvailable\<close> keeps no record of an earlier answer. Every call
  issues exactly one liveness probe, at the time of the call, and returns the outcome of
  that very probe: \<open>false\<close> when it is rejected or not answered within 5000 ms, otherwise
  whether the status is a success. So two calls in a row issue two probes, the second at
  the time the first has ended, however little time lies between them, and the second call
  returns what the network gives at that later time.
\<close>

theorem isAvailable_probes_every_call:
  "issued (snd (isAvailable net this s)) = issued s @ [(now s, probe this)] \<and>
   fst (isAvailable net this s) =
     Inr (case net (now s) (probe this) of
            (delay, Rejects e) \<Rightarrow> False
          | (delay, Resolves r) \<Rightarrow> delay < 5000 \<and> ok r) \<and>
   now (snd (isAvailable net this s)) = now s + min (fst (net (now s) (probe this))) 5000 \<and>
   issued (snd (isAvailable net this (snd (isAvailable net this s)))) =
     issued s @ [(now s, probe this), (now (snd (isAvailable net this s)), probe this)] \<and>
   map snd (issued (snd (isAvailable net this (snd (isAvailable net this s))))) =
     map snd (issued s) @ [probe this, probe this] \<and>
   fst (isAvailable net this (snd (isAvailable net this s))) =
     Inr (case net (now (snd (isAvailable net this s))) (probe this) of
            (delay, Rejects e) \<Rightarrow> False
          | (delay, Resolves r) \<Rightarrow> delay < 5000 \<and> ok r)"
proof -
  have result: "fst (isAvailable net this t) =
     Inr (case net (now t) (probe this) of
            (delay, Rejects e) \<Rightarrow> False
          | (delay, Resolves r) \<Rightarrow> delay < 5000 \<and> ok r)" for t
    by (simp add: isAvailable_run split: prod.splits fetch_outcome.splits)
  have clock: "now (snd (isAvailable net this s))
      = now s + min (fst (net (now s) (probe this))) 5000"
    by (simp add: isAvailable_run)
  show ?thesis
    using result [of s] result [of "snd (isAvailable net this s)"] clock
    by (simp add: isAvailable_issued)
qed

section \<open>Routing\<close>

text \<open>The branch \<open>auto\<close> of the routing, for a request without a model.\<close>

lemma determine_routing_auto:
  assumes "truthy (arg_model args) = None"
    and "arg_prefer args = None \<or> arg_prefer args = Some ''auto''"
    and "arg_message args = Some m"
  shows "fst (determine_routing net cfg args s) =
     Inr (if estimateComplexity m = Simple \<and> local_available net cfg s
          then (LocalClient, DEFAULT_LOCAL_MODEL cfg)
          else (RemoteClient,
                if estimateComplexity m = Complex then DEFAULT_REMOTE_MODEL cfg
                else DEFAULT_LOCAL_MODEL cfg))"
proof -
  obtain b s' where run: "isAvailable net (localClient cfg) s = (Inr b, s')"
    by (simp add: isAvailable_run)
  from assms(2) have p: "(case arg_prefer args of None \<Rightarrow> ''auto'' | Some p \<Rightarrow> p) = ''auto''"
    by auto
  show ?thesis
    using assms(1,3) run
    by (simp add: determine_routing_def p estimateComplexity_of_def local_available_def
        async_simps)
qed

lemma hi_simple: "estimateComplexity ''hi'' = Simple"
  by (simp add: estimateComplexity_def wordCount_def split_ws.simps is_space_def regex_defs)

lemma net_up_available: "local_available net_up default_config start"
  by (simp add: local_available_def isAvailable_run net_up_def example_defs)

lemma net_down_unavailable: "\<not> local_available net_down default_config start"
  by (simp add: local_available_def isAvailable_run net_down_def example_defs)

lemma hi_args_no_model: "truthy (arg_model hi_args) = None"
  by (simp add: hi_args_def no_args_def truthy_def)

lemma hi_args_auto: "arg_prefer hi_args = None \<or> arg_prefer hi_args = Some ''auto''"
  by (simp add: hi_args_def no_args_def)

lemma hi_args_message: "arg_message hi_args = Some ''hi''"
  by (simp add: hi_args_def)

lemma default_local_model: "DEFAULT_LOCAL_MODEL default_config = ''qwen2.5:1.5b''"
  by (simp add: example_defs)

text \<open>
  Claim C2: a request with preference \<open>auto\<close> (given, or by default), no model and a message
  classified \<open>simple\<close> is routed to the local client with the local default model if and
  only if the availability check of the local client returns \<open>true\<close> at the time of the
  call; otherwise it is routed to the remote client.
\<close>

theorem auto_simple_local_iff_available:
  assumes "truthy (arg_model args) = None"
    and "arg_prefer args = None \<or> arg_prefer args = Some ''auto''"
    and "arg_message args = Some m"
    and "estimateComplexity m = Simple"
  shows "\<exists>client model.
     fst (determine_routing net cfg args s) = Inr (client, model) \<and>
     ((client = LocalClient \<and> model = DEFAULT_LOCAL_MODEL cfg) = local_available net cfg s) \<and>
     client = (if local_available net cfg s then LocalClient else RemoteClient)"
  using determine_routing_auto [OF assms(1-3), of net cfg s] assms(4) by simp

theorem auto_simple_local_iff_available_witness:
  "fst (determine_routing net_up default_config hi_args start)
     = Inr (LocalClient, ''qwen2.5:1.5b'') \<and>
   map_sum id fst (fst (determine_routing net_down default_config hi_args start))
     = Inr RemoteClient"
  using
    auto_simple_local_iff_available [OF hi_args_no_model hi_args_auto hi_args_message hi_simple,
      of net_up default_config start]
    auto_simple_local_iff_available [OF hi_args_no_model hi_args_auto hi_args_message hi_simple,
      of net_down default_config start]
    net_up_available net_down_unavailable default_local_model
  by auto

text \<open>
  Claim C3: a request with preference \<open>auto\<close> and no model that is not routed to the local
  client (its message is not \<open>simple\<close>, or the local client is not available) is routed to
  the remote client, with the remote default model when the message is \<open>complex\<close> and with
  the local default model otherwise.
\<close>

theorem auto_not_local_goes_remote:
  assumes "truthy (arg_model args) = None"
    and "arg_prefer args = None \<or> arg_prefer args = Some ''auto''"
    and "arg_message args = Some m"
    and "estimateComplexity m \<noteq> Simple \<or> \<not> local_available net cfg s"
  shows "fst (determine_routing net cfg args s) =
     Inr (RemoteClient,
          if estimateComplexity m = Complex then DEFAULT_REMOTE_MODEL cfg
          else DEFAULT_LOCAL_MODEL cfg)"
  using determine_routing_auto [OF assms(1-3), of net cfg s] assms(4) by auto

theorem auto_not_local_goes_remote_witness:
  "fst (determine_routing net_down default_config hi_args start)
     = Inr (RemoteClient, ''qwen2.5:1.5b'')"
proof -
  have h: "estimateComplexity ''hi'' \<noteq> Simple \<or> \<not> local_available net_down default_config start"
    using net_down_unavailable by simp
  show ?thesis
    using auto_not_local_goes_remote [OF hi_args_no_model hi_args_auto hi_args_message h]
      hi_simple default_local_model
    by simp
qed

text \<open>
  Claim C6: a request with preference \<open>fast\<close> and no model is routed to the local client
  with the local default model, whatever the network does; the state is left as it was, so
  no availability check has run.
\<close>

theorem fast_routes_local_unconditionally:
  assumes "truthy (arg_model args) = None"
    and "arg_prefer args = Some ''fast''"
  shows "determine_routing net cfg args s = (Inr (LocalClient, DEFAULT_LOCAL_MODEL cfg), s)"
  using assms by (simp add: determine_routing_def async_simps)

theorem fast_routes_local_unconditionally_witness:
  "determine_routing net_down default_config (hi_args\<lparr>arg_prefer := Some ''fast''\<rparr>) start
     = (Inr (LocalClient, ''qwen2.5:1.5b''), start)"
proof -
  have h1: "truthy (arg_model (hi_args\<lparr>arg_prefer := Some ''fast''\<rparr>)) = None"
    by (simp add: hi_args_def no_args_def truthy_def)
  have h2: "arg_prefer (hi_args\<lparr>arg_prefer := Some ''fast''\<rparr>) = Some ''fast''"
    by simp
  show ?thesis
    using fast_routes_local_unconditionally [OF h1 h2, of net_down default_config start]
      default_local_model
    by simp
qed

text \<open>The same branch, reached with a \<open>prefer\<close> that is neither \<open>fast\<close> nor \<open>smart\<close>.\<close>

lemma determine_routing_other:
  assumes "truthy (arg_model args) = None"
    and "arg_prefer args = Some p" and "p \<noteq> ''fast''" and "p \<noteq> ''smart''"
    and "arg_message args = Some m"
  shows "fst (determine_routing net cfg args s) =
     Inr (if estimateComplexity m = Simple \<and> local_available net cfg s
          then (LocalClient, DEFAULT_LOCAL_MODEL cfg)
          else (RemoteClient,
                if estimateComplexity m = Complex then DEFAULT_REMOTE_MODEL cfg
                else DEFAULT_LOCAL_MODEL cfg))"
proof -
  obtain b s' where run: "isAvailable net (localClient cfg) s = (Inr b, s')"
    by (simp add: isAvailable_run)
  show ?thesis
    using assms run
    by (simp add: determine_routing_def estimateComplexity_of_def local_available_def
        async_simps)
qed

text \<open>
  Claim C10: a request without a model whose \<open>prefer\<close> is a string other than \<open>fast\<close> and
  \<open>smart\<close> is not rejected. The routing returns a decision, the one the classification of
  the message gives: the local client with the local default model when the message is
  \<open>simple\<close> and the local client is available, otherwise the remote client, with the remote
  default model when the message is \<open>complex\<close> and the local default model otherwise. The
  routing, and the whole tool call, are those of the same request with \<open>prefer\<close> \<open>auto\<close>.
\<close>

theorem unknown_prefer_is_auto:
  assumes "truthy (arg_model args) = None"
    and "arg_prefer args = Some p"
    and "p \<noteq> ''fast''" and "p \<noteq> ''smart''"
  shows "(arg_message args = Some m \<longrightarrow>
            fst (determine_routing net cfg args s) =
              Inr (if estimateComplexity m = Simple \<and> local_available net cfg s
                   then (LocalClient, DEFAULT_LOCAL_MODEL cfg)
                   else (RemoteClient,
                         if estimateComplexity m = Complex then DEFAULT_REMOTE_MODEL cfg
                         else DEFAULT_LOCAL_MODEL cfg))) \<and>
         determine_routing net cfg args =
           determine_routing net cfg (args\<lparr>arg_prefer := Some ''auto''\<rparr>) \<and>
         call_tool net cfg (chat_request (Some args)) =
           call_tool net cfg (chat_request (Some (args\<lparr>arg_prefer := Some ''auto''\<rparr>)))"
proof -
  have r: "determine_routing net cfg args =
           determine_routing net cfg (args\<lparr>arg_prefer := Some ''auto''\<rparr>)"
    using assms by (simp add: determine_routing_def)
  have "build_messages args = build_messages (args\<lparr>arg_prefer := Some ''auto''\<rparr>)"
    by (simp add: build_messages_def)
  with r have c: "call_tool net cfg (chat_request (Some args)) =
      call_tool net cfg (chat_request (Some (args\<lparr>arg_prefer := Some ''auto''\<rparr>)))"
    by (simp add: call_tool_def switch_tool_def chat_request_def chat_tool_def)
  show ?thesis
    using r c determine_routing_other [OF assms, of m net cfg s] by simp
qed

lemma fix_the_parser_complex: "estimateComplexity ''fix the parser'' = Complex"
  by (simp add: estimateComplexity_def wordCount_def split_ws.simps is_space_def regex_defs)

theorem unknown_prefer_is_auto_witness:
  "fst (determine_routing net_up default_config turbo_args start)
     = Inr (LocalClient, ''qwen2.5:1.5b'') \<and>
   fst (determine_routing net_down default_config turbo_args start)
     = Inr (RemoteClient, ''qwen2.5:1.5b'') \<and>
   fst (determine_routing net_up default_config turbo_fix_args start)
     = Inr (RemoteClient, ''qwen2.5:7b'') \<and>
   determine_routing net_up default_config turbo_args =
     determine_routing net_up default_config (turbo_args\<lparr>arg_prefer := Some ''auto''\<rparr>) \<and>
   call_tool net_up default_config (chat_request (Some turbo_args)) =
     call_tool net_up default_config
       (chat_request (Some (turbo_args\<lparr>arg_prefer := Some ''auto''\<rparr>)))"
proof -
  have h1: "truthy (arg_model turbo_args) = None"
    by (simp add: turbo_args_def hi_args_def no_args_def truthy_def)
  have h2: "arg_prefer turbo_args = Some ''turbo''"
    by (simp add: turbo_args_def)
  have g1: "truthy (arg_model turbo_fix_args) = None"
    by (simp add: turbo_fix_args_def no_args_def truthy_def)
  have g2: "arg_prefer turbo_fix_args = Some ''turbo''"
    by (simp add: turbo_fix_args_def)
  have h3: "''turbo'' \<noteq> ''fast''" and h4: "''turbo'' \<noteq> ''smart''"
    by simp_all
  have m1: "arg_message turbo_args = Some ''hi''"
    by (simp add: turbo_args_def hi_args_def)
  have m2: "arg_message turbo_fix_args = Some ''fix the parser''"
    by (simp add: turbo_fix_args_def)
  have d: "DEFAULT_REMOTE_MODEL default_config = ''qwen2.5:7b''"
    by (simp add: example_defs)
  note up = unknown_prefer_is_auto [OF h1 h2 h3 h4, of "''hi''" net_up default_config start]
  note down = unknown_prefer_is_auto [OF h1 h2 h3 h4, of "''hi''" net_down default_config start]
  note compl = unknown_prefer_is_auto [OF g1 g2 h3 h4, of "''fix the parser''" net_up
      default_config start]
  have c1: "fst (determine_routing net_up default_config turbo_args start)
      = Inr (LocalClient, ''qwen2.5:1.5b'')"
    using up [THEN conjunct1] m1 hi_simple net_up_available default_local_model by simp
  have c2: "fst (determine_routing net_down default_config turbo_args start)
      = Inr (RemoteClient, ''qwen2.5:1.5b'')"
    using down [THEN conjunct1] m1 hi_simple net_down_unavailable default_local_model by simp
  have c3: "fst (determine_routing net_up default_config turbo_fix_args start)
      = Inr (RemoteClient, ''qwen2.5:7b'')"
    using compl [THEN conjunct1] m2 fix_the_parser_complex d by simp
  show ?thesis
    using c1 c2 c3 up [THEN conjunct2] by blast
qed

section \<open>The tool boundary\<close>

text \<open>The \<open>try\<close>/\<open>catch\<close> around the \<open>switch\<close>: whatever the case throws is turned into a result.\<close>

lemma call_tool_run:
  "fst (call_tool net cfg req s) =
     Inr (case fst (switch_tool net cfg req s) of Inl e \<Rightarrow> error_result e | Inr r \<Rightarrow> r)"
  by (cases "switch_tool net cfg req s")
    (simp add: call_tool_def async_simps split: sum.splits)

lemma call_tool_returns: "\<exists>r. fst (call_tool net cfg req s) = Inr r"
  by (simp add: call_tool_run)

text \<open>One run of \<open>client.chat\<close>: what it returns or throws for each answer of the network.\<close>

lemma chat_run:
  "chat net c model msgs s =
     (case snd (net (now s) (Request ''POST'' (baseUrl c @ ''/api/chat'')
                               (Some (ChatBody model msgs)) None)) of
        Rejects e \<Rightarrow> Inl e
      | Resolves r \<Rightarrow>
          if \<not> ok r then
            (case text_of r of
               Inl e \<Rightarrow> Inl e
             | Inr t \<Rightarrow> Inl (Error (''Ollama error: '' @ show_nat (status r) @ '' '' @ t)))
          else (case json_of r of
                  Inl e \<Rightarrow> Inl e
                | Inr JNull \<Rightarrow> Inl (property_error ''null'' ''message'')
                | Inr (JObject t _ _) \<Rightarrow> Inr (case t of None \<Rightarrow> [] | Some x \<Rightarrow> x)),
      s\<lparr>issued := issued s @ [(now s, Request ''POST'' (baseUrl c @ ''/api/chat'')
                                         (Some (ChatBody model msgs)) None)],
        now := now s + fst (net (now s) (Request ''POST'' (baseUrl c @ ''/api/chat'')
                                           (Some (ChatBody model msgs)) None))\<rparr>)"
  by (cases "net (now s) (Request ''POST'' (baseUrl c @ ''/api/chat'')
                            (Some (ChatBody model msgs)) None)")
    (simp add: chat_def fetch_def async_simps Let_def
      split: fetch_outcome.splits sum.splits json.splits)

lemma chat_tool_routed:
  assumes "determine_routing net cfg args s = (Inr (client, model), s1)"
  shows "fst (chat_tool net cfg (Some args) s) =
     (case fst (chat net (deref cfg client) model (build_messages args) s1) of
        Inl e \<Rightarrow> Inl e
      | Inr t \<Rightarrow> Inr \<lparr>content_items = [TextItem (Plain t)],
                       metadata = Some \<lparr>meta_model = model,
                                        meta_endpoint = baseUrl (deref cfg client)\<rparr>,
                       isError = False\<rparr>)"
  using assms
  by (cases "chat net (deref cfg client) model (build_messages args) s1")
    (simp add: chat_tool_def async_simps split: sum.splits)

lemma chat_tool_not_routed:
  assumes "determine_routing net cfg args s = (Inl e, s1)"
  shows "fst (chat_tool net cfg (Some args) s) = Inl e"
  using assms by (simp add: chat_tool_def async_simps)

text \<open>
  Claim C5: the tool \<open>chat\<close> never throws past the handler. For every network,
  configuration, arguments (or none) and state the call returns a result. Whenever the case
  \<open>chat\<close> throws an error, the result is
  \<open>{content: [{type: 'text', text: 'Error: ' + error.message}], isError: true}\<close>
  with the message of that very error. This is so when the request has no arguments, when
  the routing throws, when the chosen backend cannot be reached (the \<open>fetch\<close> of the chat
  request is rejected), and when the backend answers with a status that is no success (the
  message then holds the status and the text of the answer). When the backend answers with
  a success and a content, the result is that content, with the model and the endpoint.
\<close>

theorem chat_never_raises:
  "(\<exists>r. fst (call_tool net cfg (chat_request a) s) = Inr r) \<and>
   fst (call_tool net cfg (chat_request None) s) =
     Inr \<lparr>content_items =
            [TextItem (Plain (''Error: '' @ message (destructure_error ''message'')))],
          metadata = None, isError = True\<rparr> \<and>
   (fst (chat_tool net cfg a s) = Inl e \<longrightarrow>
    fst (call_tool net cfg (chat_request a) s) =
      Inr \<lparr>content_items = [TextItem (Plain (''Error: '' @ message e))],
           metadata = None, isError = True\<rparr>) \<and>
   (determine_routing net cfg args s = (Inl e1, s1) \<longrightarrow>
    fst (call_tool net cfg (chat_request (Some args)) s) =
      Inr \<lparr>content_items = [TextItem (Plain (''Error: '' @ message e1))],
           metadata = None, isError = True\<rparr>) \<and>
   (determine_routing net cfg args s = (Inr (client, model), s1) \<and>
    snd (net (now s1) (chat_post cfg client model args)) = Rejects e2 \<longrightarrow>
    fst (call_tool net cfg (chat_request (Some args)) s) =
      Inr \<lparr>content_items = [TextItem (Plain (''Error: '' @ message e2))],
           metadata = None, isError = True\<rparr>) \<and>
   (determine_routing net cfg args s = (Inr (client, model), s1) \<and>
    snd (net (now s1) (chat_post cfg client model args)) = Resolves r \<and>
    \<not> ok r \<and> text_of r = Inr t \<longrightarrow>
    fst (call_tool net cfg (chat_request (Some args)) s) =
      Inr \<lparr>content_items =
             [TextItem (Plain (''Error: Ollama error: '' @ show_nat (status r) @ '' '' @ t))],
           metadata = None, isError = True\<rparr>) \<and>
   (determine_routing net cfg args s = (Inr (client, model), s1) \<and>
    snd (net (now s1) (chat_post cfg client model args)) = Resolves r' \<and>
    ok r' \<and> json_of r' = Inr (JObject (Some t') x y) \<longrightarrow>
    fst (call_tool net cfg (chat_request (Some args)) s) =
      Inr \<lparr>content_items = [TextItem (Plain t')],
           metadata = Some \<lparr>meta_model = model,
                            meta_endpoint = baseUrl (deref cfg client)\<rparr>,
           isError = False\<rparr>)"
proof -
  have sw: "switch_tool net cfg (chat_request b) = chat_tool net cfg b" for b
    by (simp add: switch_tool_def chat_request_def)
  have c1: "\<exists>r. fst (call_tool net cfg (chat_request a) s) = Inr r"
    by (simp add: call_tool_run)
  have c2: "fst (call_tool net cfg (chat_request None) s) =
     Inr \<lparr>content_items =
            [TextItem (Plain (''Error: '' @ message (destructure_error ''message'')))],
          metadata = None, isError = True\<rparr>"
    by (simp add: call_tool_run sw chat_tool_def error_result_def async_simps)
  have c3: "fst (chat_tool net cfg a s) = Inl e \<longrightarrow>
    fst (call_tool net cfg (chat_request a) s) =
      Inr \<lparr>content_items = [TextItem (Plain (''Error: '' @ message e))],
           metadata = None, isError = True\<rparr>"
    by (simp add: call_tool_run sw error_result_def)
  have c4: "determine_routing net cfg args s = (Inl e1, s1) \<longrightarrow>
    fst (call_tool net cfg (chat_request (Some args)) s) =
      Inr \<lparr>content_items = [TextItem (Plain (''Error: '' @ message e1))],
           metadata = None, isError = True\<rparr>"
    by (simp add: call_tool_run sw error_result_def chat_tool_not_routed)
  have c5: "determine_routing net cfg args s = (Inr (client, model), s1) \<and>
    snd (net (now s1) (chat_post cfg client model args)) = Rejects e2 \<longrightarrow>
    fst (call_tool net cfg (chat_request (Some args)) s) =
      Inr \<lparr>content_items = [TextItem (Plain (''Error: '' @ message e2))],
           metadata = None, isError = True\<rparr>"
    by (simp add: call_tool_run sw error_result_def chat_tool_routed chat_run chat_post_def)
  have c6: "determine_routing net cfg args s = (Inr (client, model), s1) \<and>
    snd (net (now s1) (chat_post cfg client model args)) = Resolves r \<and>
    \<not> ok r \<and> text_of r = Inr t \<longrightarrow>
    fst (call_tool net cfg (chat_request (Some args)) s) =
      Inr \<lparr>content_items =
             [TextItem (Plain (''Error: Ollama error: '' @ show_nat (status r) @ '' '' @ t))],
           metadata = None, isError = True\<rparr>"
    by (simp add: call_tool_run sw error_result_def chat_tool_routed chat_run chat_post_def)
  have c7: "determine_routing net cfg args s = (Inr (client, model), s1) \<and>
    snd (net (now s1) (chat_post cfg client model args)) = Resolves r' \<and>
    ok r' \<and> json_of r' = Inr (JObject (Some t') x y) \<longrightarrow>
    fst (call_tool net cfg (chat_request (Some args)) s) =
      Inr \<lparr>content_items = [TextItem (Plain t')],
           metadata = Some \<lparr>meta_model = model,
                            meta_endpoint = baseUrl (deref cfg client)\<rparr>,
           isError = False\<rparr>"
    by (simp add: call_tool_run sw chat_tool_routed chat_run chat_post_def)
  show ?thesis
    using c1 c2 c3 c4 c5 c6 c7 by blast
qed

text \<open>
  The cases of the theorem at concrete inputs: no arguments; no message under \<open>auto\<close>, so
  that the routing throws; a backend chosen by \<open>fast\<close> that cannot be reached; a backend
  that answers 500; a backend that answers.
\<close>

lemma fast_args_routing:
  "determine_routing net default_config fast_args start
     = (Inr (LocalClient, ''qwen2.5:1.5b''), start)"
  by (simp add: determine_routing_def fast_args_def hi_args_def no_args_def truthy_def
      async_simps example_defs)

lemma no_args_routing:
  "determine_routing net_up default_config no_args start
     = (Inl (property_error ''undefined'' ''split''), start)"
  by (simp add: determine_routing_def no_args_def truthy_def estimateComplexity_of_def
      async_simps)

lemma hi_args_routing:
  "determine_routing net_up default_config hi_args start
     = (Inr (LocalClient, ''qwen2.5:1.5b''),
        snd (determine_routing net_up default_config hi_args start))"
  using determine_routing_auto [OF hi_args_no_model hi_args_auto hi_args_message,
      of net_up default_config start]
    hi_simple net_up_available default_local_model
  by (simp add: prod_eq_iff)

theorem chat_never_raises_witness:
  "fst (call_tool net_down default_config (chat_request None) start) =
     Inr \<lparr>content_items =
            [TextItem (Plain (''Error: Cannot destructure property '' @ [CHR 0x27]
               @ ''message'' @ [CHR 0x27] @ '' of '' @ [CHR 0x27] @ ''args'' @ [CHR 0x27]
               @ '' as it is undefined.''))],
          metadata = None, isError = True\<rparr> \<and>
   fst (call_tool net_up default_config (chat_request (Some no_args)) start) =
     Inr \<lparr>content_items =
            [TextItem (Plain (''Error: Cannot read properties of undefined (reading ''
               @ [CHR 0x27] @ ''split'' @ [CHR 0x27] @ '')''))],
          metadata = None, isError = True\<rparr> \<and>
   fst (call_tool net_down default_config (chat_request (Some fast_args)) start) =
     Inr \<lparr>content_items = [TextItem (Plain ''Error: fetch failed'')],
          metadata = None, isError = True\<rparr> \<and>
   fst (call_tool net_500 default_config (chat_request (Some fast_args)) start) =
     Inr \<lparr>content_items = [TextItem (Plain ''Error: Ollama error: 500 model not found'')],
          metadata = None, isError = True\<rparr> \<and>
   fst (call_tool net_up default_config (chat_request (Some hi_args)) start) =
     Inr \<lparr>content_items = [TextItem (Plain ''Hello!'')],
          metadata = Some \<lparr>meta_model = ''qwen2.5:1.5b'',
                           meta_endpoint = ''http://localhost:8080''\<rparr>,
          isError = False\<rparr>"
proof -
  have w1: "fst (call_tool net_down default_config (chat_request None) start) =
     Inr \<lparr>content_items =
            [TextItem (Plain (''Error: Cannot destructure property '' @ [CHR 0x27]
               @ ''message'' @ [CHR 0x27] @ '' of '' @ [CHR 0x27] @ ''args'' @ [CHR 0x27]
               @ '' as it is undefined.''))],
          metadata = None, isError = True\<rparr>"
    using chat_never_raises [where net = net_down and cfg = default_config and s = start]
    by (simp add: destructure_error_def)
  have w2: "fst (call_tool net_up default_config (chat_request (Some no_args)) start) =
     Inr \<lparr>content_items =
            [TextItem (Plain (''Error: Cannot read properties of undefined (reading ''
               @ [CHR 0x27] @ ''split'' @ [CHR 0x27] @ '')''))],
          metadata = None, isError = True\<rparr>"
    using chat_never_raises [where net = net_up and cfg = default_config and s = start
        and args = no_args and ?e1.0 = "property_error ''undefined'' ''split''"
        and ?s1.0 = start]
      no_args_routing
    by (simp add: property_error_def)
  have down: "snd (net_down (now start)
      (chat_post default_config LocalClient ''qwen2.5:1.5b'' fast_args)) = Rejects refused"
    by (simp add: net_down_def)
  have w3: "fst (call_tool net_down default_config (chat_request (Some fast_args)) start) =
     Inr \<lparr>content_items = [TextItem (Plain ''Error: fetch failed'')],
          metadata = None, isError = True\<rparr>"
    using chat_never_raises [where net = net_down and cfg = default_config and s = start
        and args = fast_args and client = LocalClient and model = "''qwen2.5:1.5b''"
        and ?s1.0 = start and ?e2.0 = refused]
      fast_args_routing [of net_down] down
    by (simp add: refused_def)
  have err: "snd (net_500 (now start)
      (chat_post default_config LocalClient ''qwen2.5:1.5b'' fast_args))
      = Resolves failing_response"
    by (simp add: net_500_def)
  have bad: "\<not> ok failing_response" "text_of failing_response = Inr ''model not found''"
    "show_nat (status failing_response) = ''500''"
    by (simp_all add: ok_def failing_response_def show_nat.simps)
  have w4: "fst (call_tool net_500 default_config (chat_request (Some fast_args)) start) =
     Inr \<lparr>content_items = [TextItem (Plain ''Error: Ollama error: 500 model not found'')],
          metadata = None, isError = True\<rparr>"
    using chat_never_raises [where net = net_500 and cfg = default_config and s = start
        and args = fast_args and client = LocalClient and model = "''qwen2.5:1.5b''"
        and ?s1.0 = start and r = failing_response and t = "''model not found''"]
      fast_args_routing [of net_500] err bad
    by simp
  have up: "snd (net_up (now (snd (determine_routing net_up default_config hi_args start)))
      (chat_post default_config LocalClient ''qwen2.5:1.5b'' hi_args))
      = Resolves good_response"
    by (simp add: net_up_def)
  have good: "ok good_response"
    "json_of good_response = Inr (JObject (Some ''Hello!'') (Some ''Hello!'') (Some [''qwen2.5:7b'']))"
    by (simp_all add: ok_def good_response_def)
  have w5: "fst (call_tool net_up default_config (chat_request (Some hi_args)) start) =
     Inr \<lparr>content_items = [TextItem (Plain ''Hello!'')],
          metadata = Some \<lparr>meta_model = ''qwen2.5:1.5b'',
                           meta_endpoint = ''http://localhost:8080''\<rparr>,
          isError = False\<rparr>"
    using chat_never_raises [where net = net_up and cfg = default_config and s = start
        and args = hi_args and client = LocalClient and model = "''qwen2.5:1.5b''"
        and ?s1.0 = "snd (determine_routing net_up default_config hi_args start)"
        and r' = good_response and t' = "''Hello!''" and x = "Some ''Hello!''"
        and y = "Some [''qwen2.5:7b'']"]
      hi_args_routing up good
    by (simp add: example_defs)
  show ?thesis
    using w1 w2 w3 w4 w5 by blast
qed

subsection \<open>\<open>list_models\<close>\<close>

lemma list_slot_run:
  "list_slot net c s =
     (case fst (listModels net c s) of
        Inl e \<Rightarrow> Inr [ErrorMarker (message e)]
      | Inr ms \<Rightarrow> Inr (map Model ms),
      snd (listModels net c s))"
  by (cases "listModels net c s") (simp add: list_slot_def async_simps split: sum.splits)

lemma listModels_run:
  "listModels net c s =
     (case snd (net (now s) (tags_request c None)) of
        Rejects e \<Rightarrow> Inl e
      | Resolves r \<Rightarrow>
          if \<not> ok r then Inl (Error (''Ollama error: '' @ show_nat (status r)))
          else (case json_of r of
                  Inl e \<Rightarrow> Inl e
                | Inr JNull \<Rightarrow> Inl (property_error ''null'' ''models'')
                | Inr (JObject _ _ ms) \<Rightarrow> Inr (case ms of None \<Rightarrow> [] | Some l \<Rightarrow> l)),
      s\<lparr>issued := issued s @ [(now s, tags_request c None)],
        now := now s + fst (net (now s) (tags_request c None))\<rparr>)"
  by (cases "net (now s) (tags_request c None)")
    (simp add: listModels_def fetch_def tags_request_def async_simps Let_def
      split: fetch_outcome.splits sum.splits json.splits)

text \<open>
  Claim C8: \<open>list_models\<close> asks both backends, the remote one from the state the local query
  has left, whatever that query gave. When the local query throws \<open>e\<close> and the remote one
  returns its models, the local slot is the one-element list \<open>[{error: e.message}]\<close> and the
  remote slot is the list of models; likewise with the roles exchanged. In every case the
  effects of the call are those of the two queries, one after the other.
\<close>

theorem list_models_partial_results:
  "(fst (listModels net (localClient cfg) s) = Inl e \<and>
    fst (listModels net (remoteClient cfg) (snd (listModels net (localClient cfg) s))) = Inr ms
    \<longrightarrow>
    fst (call_tool net cfg (list_models_request a) s) =
      Inr \<lparr>content_items =
             [TextItem (ModelsJson \<lparr>local_slot = [ErrorMarker (message e)],
                                    remote_slot = map Model ms\<rparr>)],
           metadata = None, isError = False\<rparr>) \<and>
   (fst (listModels net (localClient cfg) s) = Inr ms' \<and>
    fst (listModels net (remoteClient cfg) (snd (listModels net (localClient cfg) s))) = Inl e'
    \<longrightarrow>
    fst (call_tool net cfg (list_models_request a) s) =
      Inr \<lparr>content_items =
             [TextItem (ModelsJson \<lparr>local_slot = map Model ms',
                                    remote_slot = [ErrorMarker (message e')]\<rparr>)],
           metadata = None, isError = False\<rparr>) \<and>
   snd (call_tool net cfg (list_models_request a) s) =
     snd (listModels net (remoteClient cfg) (snd (listModels net (localClient cfg) s)))"
  by (simp add: call_tool_def switch_tool_def list_models_request_def list_models_tool_def
      list_slot_run async_simps split: sum.splits)

theorem list_models_partial_results_witness:
  "fst (call_tool net_local_down default_config (list_models_request None) start) =
     Inr \<lparr>content_items =
            [TextItem (ModelsJson \<lparr>local_slot = [ErrorMarker ''fetch failed''],
                                   remote_slot = [Model ''qwen2.5:7b'']\<rparr>)],
          metadata = None, isError = False\<rparr> \<and>
   fst (call_tool net_remote_down default_config (list_models_request None) start) =
     Inr \<lparr>content_items =
            [TextItem (ModelsJson \<lparr>local_slot = [Model ''qwen2.5:7b''],
                                   remote_slot = [ErrorMarker ''fetch failed'']\<rparr>)],
          metadata = None, isError = False\<rparr> \<and>
   map snd (issued (snd (call_tool net_local_down default_config (list_models_request None)
       start))) =
     [tags_request (localClient default_config) None,
      tags_request (remoteClient default_config) None]"
proof -
  have l1: "fst (listModels net_local_down (localClient default_config) start) = Inl refused"
    by (simp add: listModels_run net_local_down_def example_defs)
  have r1: "fst (listModels net_local_down (remoteClient default_config)
              (snd (listModels net_local_down (localClient default_config) start)))
            = Inr [''qwen2.5:7b'']"
    by (simp add: listModels_run net_local_down_def example_defs)
  have l2: "fst (listModels net_remote_down (localClient default_config) start)
            = Inr [''qwen2.5:7b'']"
    by (simp add: listModels_run net_remote_down_def example_defs)
  have r2: "fst (listModels net_remote_down (remoteClient default_config)
              (snd (listModels net_remote_down (localClient default_config) start)))
            = Inl refused"
    by (simp add: listModels_run net_remote_down_def example_defs)
  have i: "map snd (issued (snd (listModels net_local_down (remoteClient default_config)
              (snd (listModels net_local_down (localClient default_config) start))))) =
     [tags_request (localClient default_config) None,
      tags_request (remoteClient default_config) None]"
    by (simp add: listModels_run start_def)
  show ?thesis
    using list_models_partial_results
        [of net_local_down default_config start refused "[''qwen2.5:7b'']" None]
      list_models_partial_results
        [of net_remote_down default_config start _ _ None "[''qwen2.5:7b'']" refused]
      l1 r1 l2 r2 i
    by (simp add: refused_def)
qed

end
